theory Spec2Isabelle
  imports Complex_Main
begin

section \<open>Python floats\<close>

text \<open>
  Every quantity of \<^verbatim>\<open>simulate_apollo\<close> (stakes, balance, accumulated loss) is a Python
  \<^verbatim>\<open>float\<close>, an IEEE 754 binary64 number. A finite float is modelled by the rational
  number it denotes, and every arithmetic operation by the exact operation followed by
  rounding to the nearest number with a 53-bit significand, ties to the even significand
  (\<open>fl\<close>). The exponent is not bounded: the model agrees with binary64 wherever no
  overflow and no subnormal number occurs, and every number of a run is 0 or has a
  magnitude between 0.02 and \<open>10\<^sup>6\<close>. Both zeros are the rational 0; Python compares them
  equal.
\<close>

definition pow2 :: "int \<Rightarrow> rat" where
  "pow2 k = (if 0 \<le> k then 2 ^ nat k else 1 / 2 ^ nat (- k))"

text \<open>The number of binary digits of a positive integer.\<close>

function bitlen :: "int \<Rightarrow> int" where
  "bitlen n = (if n \<le> 0 then 0 else 1 + bitlen (n div 2))"
  by pat_completeness auto
termination
  by (relation "measure nat") auto

declare bitlen.simps [simp del]

text \<open>
  \<open>ilog2 q\<close> is the integer \<open>k\<close> with \<open>2\<^sup>k \<le> q < 2\<^sup>k\<^sup>+\<^sup>1\<close>, for a positive \<open>q\<close>: one less
  than the digit count of \<open>\<lfloor>q\<rfloor>\<close> from 1 on, and below 1 the least \<open>k\<close> with
  \<open>1 / q \<le> 2\<^sup>k\<close>, negated.
\<close>

definition ilog2 :: "rat \<Rightarrow> int" where
  "ilog2 q = (if 1 \<le> q then bitlen \<lfloor>q\<rfloor> - 1 else - bitlen (\<lceil>1 / q\<rceil> - 1))"

definition round_half_even :: "rat \<Rightarrow> int" where
  "round_half_even x =
     (let f = \<lfloor>x\<rfloor>; r = x - of_int f
      in if r < 1 / 2 then f
         else if 1 / 2 < r then f + 1
         else if even f then f else f + 1)"

definition fl_pos :: "rat \<Rightarrow> rat" where
  "fl_pos q = (let e = ilog2 q - 52 in of_int (round_half_even (q / pow2 e)) * pow2 e)"

definition fl :: "rat \<Rightarrow> rat" where
  "fl q = (if q = 0 then 0 else if q < 0 then - fl_pos (- q) else fl_pos q)"

text \<open>Python's \<^verbatim>\<open>+\<close>, \<^verbatim>\<open>-\<close>, \<^verbatim>\<open>*\<close> and \<^verbatim>\<open>/\<close> on floats.\<close>

definition py_add :: "rat \<Rightarrow> rat \<Rightarrow> rat" where
  "py_add a b = fl (a + b)"

definition py_sub :: "rat \<Rightarrow> rat \<Rightarrow> rat" where
  "py_sub a b = fl (a - b)"

definition py_mul :: "rat \<Rightarrow> rat \<Rightarrow> rat" where
  "py_mul a b = fl (a * b)"

text \<open>
  The only division of the source is by the constant \<^verbatim>\<open>payout_u4\<close>, which is not zero,
  so \<^verbatim>\<open>ZeroDivisionError\<close> is no branch of the model.
\<close>

definition py_truediv :: "rat \<Rightarrow> rat \<Rightarrow> rat" where
  "py_truediv a b = fl (a / b)"

text \<open>
  \<^verbatim>\<open>round(x, 2)\<close> on a float: CPython writes the exact value of \<open>x\<close> with two decimals,
  correctly rounded with ties to even, and reads the decimal back as the nearest float.
\<close>

definition py_round2 :: "rat \<Rightarrow> rat" where
  "py_round2 x = fl (of_int (round_half_even (x * 100)) / 100)"

section \<open>The simulation\<close>

text \<open>The constants of lines 3 to 5; a float literal denotes the nearest float.\<close>

definition base_stake :: rat where
  "base_stake = fl 1"

definition payout_u8 :: rat where
  "payout_u8 = fl (19 / 100)"

definition payout_u4 :: rat where
  "payout_u4 = fl (120 / 100)"

text \<open>Line 8: \<^verbatim>\<open>profit_pct = 0.02 if mode == 'conservador' else 0.15\<close>.\<close>

definition profit_pct :: "string \<Rightarrow> rat" where
  "profit_pct mode = (if mode = ''conservador'' then fl (2 / 100) else fl (15 / 100))"

text \<open>The three variables the loop updates (lines 18 to 20).\<close>

record vars =
  balance :: rat
  loss_streak :: nat
  accumulated_loss :: rat

definition init_vars :: vars where
  "init_vars = \<lparr>balance = 0, loss_streak = 0, accumulated_loss = 0\<rparr>"

text \<open>
  An entry of \<^verbatim>\<open>history\<close> (lines 77 to 83), with the keys of the dictionary;
  \<open>h_balance\<close> is the key \<^verbatim>\<open>'balance'\<close>. The line printed at line 85 shows the same
  five values.
\<close>

record entry =
  step :: nat
  contract :: string
  stake :: rat
  h_balance :: rat
  acc_loss :: rat

text \<open>
  Lines 33 to 63: the contract and the stake of the next bet. The contract \<^verbatim>\<open>U8\<close> is
  the normal instrument and \<^verbatim>\<open>U4\<close> the recovery instrument.
\<close>

definition next_bet :: "rat \<Rightarrow> nat \<Rightarrow> rat \<Rightarrow> string \<times> rat" where
  "next_bet pct streak acc =
     (if streak = 0 then (''U8'', base_stake)
      else if streak = 1 then (''U8'', base_stake)
      else
        (let target = py_mul acc (py_add 1 pct);
             required_profit = target;
             current_stake = py_truediv required_profit payout_u4;
             current_stake = py_round2 current_stake
         in (''U4'', if current_stake < fl (35 / 100) then fl (35 / 100) else current_stake)))"

text \<open>Lines 71 to 75: the bet is lost.\<close>

definition simulate_loss :: "rat \<Rightarrow> vars \<Rightarrow> vars" where
  "simulate_loss current_stake v =
     (let loss_amount = current_stake
      in \<lparr>balance = py_sub (balance v) loss_amount,
          loss_streak = loss_streak v + 1,
          accumulated_loss = py_add (accumulated_loss v) loss_amount\<rparr>)"

text \<open>One pass through the body of the loop, up to the entry appended to the history.\<close>

definition bet :: "rat \<Rightarrow> nat \<Rightarrow> vars \<Rightarrow> vars \<times> entry" where
  "bet pct i v =
     (let (c, current_stake) = next_bet pct (loss_streak v) (accumulated_loss v);
          v' = simulate_loss current_stake v
      in (v', \<lparr>step = i, contract = c, stake = current_stake,
               h_balance = balance v', acc_loss = accumulated_loss v'\<rparr>))"

text \<open>
  How the loop ends: by the \<^verbatim>\<open>break\<close> of line 91, after the stop-loss message with the
  number of the bet and the total invested (\<open>StoppedOut\<close>), or because the range is
  exhausted, and then nothing more is printed (\<open>MaxStepsReached\<close>).
\<close>

datatype ending = StoppedOut nat rat | MaxStepsReached

record session =
  history :: "entry list"
  final :: vars
  ending :: ending

text \<open>The \<^verbatim>\<open>for\<close> loop of line 32 over the numbers of the range that remain.\<close>

fun loop :: "rat \<Rightarrow> rat \<Rightarrow> nat list \<Rightarrow> vars \<Rightarrow> entry list \<Rightarrow> session" where
  "loop stop_loss pct [] v hist = \<lparr>history = hist, final = v, ending = MaxStepsReached\<rparr>"
| "loop stop_loss pct (i # rest) v hist =
     (let (v', e) = bet pct i v;
          hist' = hist @ [e]
      in if stop_loss \<le> \<bar>balance v'\<bar>
         then \<lparr>history = hist', final = v', ending = StoppedOut i \<bar>balance v'\<bar>\<rparr>
         else loop stop_loss pct rest v' hist')"

text \<open>
  \<^verbatim>\<open>simulate_apollo(stop_loss, mode)\<close>; \<^verbatim>\<open>range(1, 20)\<close> is the list \<open>[1..<20]\<close>. The argument
  \<open>stop_loss\<close> is the value of a Python int or finite float, which Python compares with
  the float \<^verbatim>\<open>abs(balance)\<close> by value, and \<open>mode\<close> is a string. The function checks
  neither argument. A \<open>stop_loss\<close> that is not a number is outside the model: line 87 would
  raise \<^verbatim>\<open>TypeError\<close> on it after the first bet.
\<close>

definition simulate_apollo :: "rat \<Rightarrow> string \<Rightarrow> session" where
  "simulate_apollo stop_loss mode = loop stop_loss (profit_pct mode) [1..<20] init_vars []"


text \<open>
  The entries the loop would append if it never reached the \<^verbatim>\<open>break\<close>: the history of a
  run is an initial segment of them, whatever \<open>stop_loss\<close> is.
\<close>

fun bets :: "rat \<Rightarrow> nat list \<Rightarrow> vars \<Rightarrow> entry list" where
  "bets pct [] v = []"
| "bets pct (i # rest) v = (let (v', e) = bet pct i v in e # bets pct rest v')"

text \<open>
  A test on consecutive entries, to be evaluated on the entries from the third on: both
  are on \<^verbatim>\<open>U4\<close>, the stake of the second is the rounded recovery stake for the
  accumulated loss the first one left, with no need of the floor of 0.35, and it is larger
  than the stake of the first.
\<close>

fun recovering :: "rat \<Rightarrow> entry list \<Rightarrow> bool" where
  "recovering pct (e1 # e2 # es) =
     (contract e1 = ''U4'' \<and> contract e2 = ''U4'' \<and>
      stake e2 = py_round2 (py_truediv (py_mul (acc_loss e1) (py_add 1 pct)) payout_u4) \<and>
      stake e1 < stake e2 \<and> recovering pct (e2 # es))"
| "recovering pct es = True"

text \<open>
  The transition that the specification describes for a won bet: the balance grows by the
  stake times the payout rate of the contract, and the accumulated loss and the loss
  streak are reset. The source has no counterpart; the definition follows the
  specification's words and is here to be compared with what the loop body does.
\<close>

definition payout_rate :: "string \<Rightarrow> rat" where
  "payout_rate c = (if c = ''U8'' then payout_u8 else payout_u4)"

definition win_transition_spec :: "string \<Rightarrow> rat \<Rightarrow> vars \<Rightarrow> vars" where
  "win_transition_spec c s v =
     \<lparr>balance = py_add (balance v) (py_mul s (payout_rate c)),
      loss_streak = 0,
      accumulated_loss = 0\<rparr>"

section \<open>Evaluating floats on numerals\<close>

text \<open>
  The simplifier evaluates \<open>fl\<close> on a quotient of numerals once floors and ceilings of
  such quotients are integer divisions and \<open>bitlen\<close> unfolds on numerals only.
\<close>

lemma floor_rat_numeral_div:
  "\<lfloor>numeral a / numeral b :: rat\<rfloor> = numeral a div numeral b"
  by (metis floor_divide_of_int_eq of_int_numeral)

lemma ceiling_rat_numeral_div:
  "\<lceil>numeral a / numeral b :: rat\<rceil> = - (- numeral a div numeral b)"
  by (metis ceiling_def floor_divide_of_int_eq of_int_numeral of_int_minus minus_divide_left)

lemma bitlen_0: "bitlen 0 = 0"
  by (simp add: bitlen.simps)

lemma bitlen_1: "bitlen 1 = 1"
  by (simp add: bitlen.simps)

lemma bitlen_numeral: "bitlen (numeral k) = 1 + bitlen (numeral k div 2)"
  by (subst bitlen.simps) simp

lemmas float_eval =
  fl_def fl_pos_def ilog2_def round_half_even_def pow2_def Let_def
  bitlen_0 bitlen_1 bitlen_numeral floor_rat_numeral_div ceiling_rat_numeral_div
  py_add_def py_sub_def py_mul_def py_truediv_def py_round2_def

lemmas run_eval =
  float_eval base_stake_def payout_u4_def payout_u8_def profit_pct_def init_vars_def
  next_bet_def simulate_loss_def bet_def

lemma range_1_20:
  "[1..<20] = [1, 2, 3, 4, 5, 6, 7, 8, 9, 10, 11, 12, 13, 14, 15, 16, 17, 18, 19::nat]"
  by code_simp

lemma base_stake_1: "base_stake = 1"
  by (simp add: run_eval)

text \<open>
  The floats that the literals \<^verbatim>\<open>0.1\<close>, \<^verbatim>\<open>0.35\<close> and \<^verbatim>\<open>1.20\<close> denote, the quotient
  \<^verbatim>\<open>2.04 / 1.2\<close>, which is the float \<^verbatim>\<open>1.7000000000000002\<close> and not \<^verbatim>\<open>1.7\<close>, and a tie
  that goes to the even significand.
\<close>

lemma fl_known_values:
  "fl (1 / 10) = 3602879701896397 / 36028797018963968"
  "fl (35 / 100) = 3152519739159347 / 9007199254740992"
  "fl (120 / 100) = 5404319552844595 / 4503599627370496"
  "py_truediv (fl (204 / 100)) (fl (120 / 100)) = 1914029841632461 / 1125899906842624"
  "py_truediv (fl (204 / 100)) (fl (120 / 100)) \<noteq> fl (170 / 100)"
  "fl (9007199254740993) = 9007199254740992"
  "fl (9007199254740995) = 9007199254740996"
  by (simp_all add: float_eval cong: let_weak_cong)

text \<open>Rounding is symmetric: the float nearest to \<open>- q\<close> is the negated float nearest to \<open>q\<close>.\<close>

lemma fl_minus: "fl (- q) = - fl q"
proof (cases "q = 0")
  case True
  then show ?thesis by (simp add: fl_def)
next
  case False
  then show ?thesis by (cases "q < 0") (auto simp: fl_def)
qed

section \<open>The staking rule\<close>

text \<open>
  C4. A bet placed with a loss streak of 0 or of 1 is on the normal contract \<^verbatim>\<open>U8\<close> and
  its stake is the base stake: the first loss does not engage the recovery.
\<close>

theorem normal_bet_at_base_stake:
  "loss_streak v = 0 \<or> loss_streak v = 1 \<Longrightarrow>
   contract (snd (bet pct i v)) = ''U8'' \<and> stake (snd (bet pct i v)) = base_stake"
  by (auto simp: bet_def next_bet_def Let_def)

theorem normal_bet_at_base_stake_witness:
  "loss_streak \<lparr>balance = - 1, loss_streak = 1, accumulated_loss = 1\<rparr> = 1 \<and>
   contract (snd (bet (profit_pct ''conservador'') 2
     \<lparr>balance = - 1, loss_streak = 1, accumulated_loss = 1\<rparr>)) = ''U8'' \<and>
   stake (snd (bet (profit_pct ''conservador'') 2
     \<lparr>balance = - 1, loss_streak = 1, accumulated_loss = 1\<rparr>)) = 1"
  using normal_bet_at_base_stake
    [of "\<lparr>balance = - 1, loss_streak = 1, accumulated_loss = 1\<rparr>" "profit_pct ''conservador''" 2]
  by (simp add: base_stake_1)

text \<open>
  C1. A bet placed with a loss streak of 2 or more is on the recovery contract \<^verbatim>\<open>U4\<close>.
  Its stake is \<^verbatim>\<open>round(accumulated_loss * (1 + profit_pct) / 1.20, 2)\<close> when that is at least
  0.35 and 0.35 otherwise, where \<^verbatim>\<open>profit_pct\<close> is 0.02 in the mode \<^verbatim>\<open>conservador\<close> and 0.15
  in the other mode.
\<close>

theorem recovery_bet_stake:
  "2 \<le> loss_streak v \<Longrightarrow>
   contract (snd (bet (profit_pct mode) i v)) = ''U4'' \<and>
   stake (snd (bet (profit_pct mode) i v)) =
     (if fl (35 / 100) \<le>
         py_round2 (py_truediv
           (py_mul (accumulated_loss v)
             (py_add 1 (if mode = ''conservador'' then fl (2 / 100) else fl (15 / 100))))
           (fl (120 / 100)))
      then py_round2 (py_truediv
           (py_mul (accumulated_loss v)
             (py_add 1 (if mode = ''conservador'' then fl (2 / 100) else fl (15 / 100))))
           (fl (120 / 100)))
      else fl (35 / 100))"
  by (simp add: bet_def next_bet_def Let_def profit_pct_def payout_u4_def not_less)

text \<open>
  The witness is the boundary case and the scenario of the aggressive mode: an accumulated
  loss of 0.12 gives a computed stake of 0.10, which is raised to 0.35, and an accumulated
  loss of 10.0 in the other mode gives 9.58.
\<close>

theorem recovery_bet_stake_witness:
  "2 \<le> loss_streak \<lparr>balance = - fl (12 / 100), loss_streak = 2, accumulated_loss = fl (12 / 100)\<rparr> \<and>
   py_round2 (py_truediv (py_mul (fl (12 / 100)) (py_add 1 (fl (2 / 100)))) (fl (120 / 100)))
     = fl (10 / 100) \<and>
   contract (snd (bet (profit_pct ''conservador'') 3
     \<lparr>balance = - fl (12 / 100), loss_streak = 2, accumulated_loss = fl (12 / 100)\<rparr>)) = ''U4'' \<and>
   stake (snd (bet (profit_pct ''conservador'') 3
     \<lparr>balance = - fl (12 / 100), loss_streak = 2, accumulated_loss = fl (12 / 100)\<rparr>))
     = fl (35 / 100) \<and>
   stake (snd (bet (profit_pct ''agressivo'') 3
     \<lparr>balance = - 10, loss_streak = 2, accumulated_loss = 10\<rparr>)) = fl (958 / 100)"
  using recovery_bet_stake
      [of "\<lparr>balance = - fl (12 / 100), loss_streak = 2, accumulated_loss = fl (12 / 100)\<rparr>"
        "''conservador''" 3]
    recovery_bet_stake
      [of "\<lparr>balance = - 10, loss_streak = 2, accumulated_loss = 10\<rparr>" "''agressivo''" 3]
  by (simp add: run_eval cong: let_weak_cong)


section \<open>The loop\<close>

lemma loop_length: "length (history (loop sl pct ns v hist)) \<le> length hist + length ns"
proof (induction ns arbitrary: v hist)
  case Nil
  show ?case by simp
next
  case (Cons i rest)
  obtain v' e where b: "bet pct i v = (v', e)"
    by (cases "bet pct i v")
  show ?case
    using Cons.IH [of v' "hist @ [e]"] by (simp add: b Let_def)
qed

lemma loop_history_bets: "\<exists>n. history (loop sl pct ns v hist) = hist @ take n (bets pct ns v)"
proof (induction ns arbitrary: v hist)
  case Nil
  show ?case by simp
next
  case (Cons i rest)
  obtain v' e where b: "bet pct i v = (v', e)"
    by (cases "bet pct i v")
  show ?case
  proof (cases "sl \<le> \<bar>balance v'\<bar>")
    case True
    then have "history (loop sl pct (i # rest) v hist) = hist @ take 1 (bets pct (i # rest) v)"
      by (simp add: b)
    then show ?thesis by blast
  next
    case False
    obtain n where "history (loop sl pct rest v' (hist @ [e])) = (hist @ [e]) @ take n (bets pct rest v')"
      using Cons.IH [of v' "hist @ [e]"] by blast
    with False have "history (loop sl pct (i # rest) v hist) = hist @ take (Suc n) (bets pct (i # rest) v)"
      by (simp add: b)
    then show ?thesis by blast
  qed
qed

lemma bets_step: "map step (bets pct ns v) = ns"
proof (induction ns arbitrary: v)
  case Nil
  show ?case by simp
next
  case (Cons i rest)
  obtain v' e where b: "bet pct i v = (v', e)"
    by (cases "bet pct i v")
  then have "step e = i"
    by (auto simp: bet_def Let_def split: prod.splits)
  with Cons.IH [of v'] show ?case by (simp add: b)
qed

lemma length_bets: "length (bets pct ns v) = length ns"
  using bets_step [of pct ns v] by (metis length_map)

text \<open>The entries of a run are numbered from 1.\<close>

lemma simulate_apollo_step:
  assumes "k < length (history (simulate_apollo sl mode))"
  shows "step (history (simulate_apollo sl mode) ! k) = Suc k"
proof -
  let ?B = "bets (profit_pct mode) [1..<20] init_vars"
  obtain n where h: "history (simulate_apollo sl mode) = take n ?B"
    using loop_history_bets [of sl "profit_pct mode" "[1..<20]" init_vars "[]"]
    by (auto simp: simulate_apollo_def)
  from assms h have k: "k < n" "k < length ?B" by simp_all
  then have k19: "k < 19" by (simp add: length_bets)
  have "step (history (simulate_apollo sl mode) ! k) = step (?B ! k)"
    using k by (simp add: h)
  also have "\<dots> = map step ?B ! k"
    using k by simp
  also have "\<dots> = [1..<20] ! k"
    by (simp only: bets_step)
  also have "\<dots> = Suc k"
    using k19 by simp
  finally show ?thesis .
qed

section \<open>The mirror invariant\<close>

lemma simulate_loss_mirror:
  "accumulated_loss v = - balance v \<Longrightarrow>
   accumulated_loss (simulate_loss s v) = - balance (simulate_loss s v)"
proof -
  assume a: "accumulated_loss v = - balance v"
  have "balance v - s = - (accumulated_loss v + s)"
    using a by simp
  then have "fl (balance v - s) = - fl (accumulated_loss v + s)"
    by (simp only: fl_minus)
  then show ?thesis
    by (simp add: simulate_loss_def py_add_def py_sub_def)
qed

lemma bet_mirror:
  assumes "accumulated_loss v = - balance v" and "bet pct i v = (v', e)"
  shows "accumulated_loss v' = - balance v' \<and> acc_loss e = - h_balance e"
proof -
  obtain c s where n: "next_bet pct (loss_streak v) (accumulated_loss v) = (c, s)"
    by (cases "next_bet pct (loss_streak v) (accumulated_loss v)")
  from assms(2) have v': "v' = simulate_loss s v"
    and e: "h_balance e = balance v'" "acc_loss e = accumulated_loss v'"
    by (auto simp: bet_def n Let_def)
  from simulate_loss_mirror [OF assms(1)] show ?thesis
    by (simp add: v' e)
qed

lemma loop_mirror:
  "accumulated_loss v = - balance v \<Longrightarrow> \<forall>e\<in>set hist. acc_loss e = - h_balance e \<Longrightarrow>
   accumulated_loss (final (loop sl pct ns v hist)) = - balance (final (loop sl pct ns v hist)) \<and>
   (\<forall>e\<in>set (history (loop sl pct ns v hist)). acc_loss e = - h_balance e)"
proof (induction ns arbitrary: v hist)
  case Nil
  then show ?case by simp
next
  case (Cons i rest)
  obtain v' e where b: "bet pct i v = (v', e)"
    by (cases "bet pct i v")
  from bet_mirror [OF Cons.prems(1) b]
  have m: "accumulated_loss v' = - balance v'" "acc_loss e = - h_balance e"
    by simp_all
  have h: "\<forall>x\<in>set (hist @ [e]). acc_loss x = - h_balance x"
    using Cons.prems(2) m(2) by simp
  show ?case
  proof (cases "sl \<le> \<bar>balance v'\<bar>")
    case True
    then show ?thesis using m h by (simp add: b)
  next
    case False
    then show ?thesis using Cons.IH [OF m(1) h] by (simp add: b)
  qed
qed

section \<open>The default run\<close>

text \<open>
  \<^verbatim>\<open>simulate_apollo()\<close>, the call of line 93 with the default arguments: eight bets, and the
  eighth crosses the stop loss of 50. The balance after the sixth bet is the float
  \<^verbatim>\<open>23.439999999999998\<close>, not 23.44.
\<close>

lemma default_run:
  "simulate_apollo 50 ''conservador'' =
   \<lparr>history =
      [\<lparr>step = 1, contract = ''U8'', stake = 1, h_balance = - 1, acc_loss = 1\<rparr>,
       \<lparr>step = 2, contract = ''U8'', stake = 1, h_balance = - 2, acc_loss = 2\<rparr>,
       \<lparr>step = 3, contract = ''U4'', stake = fl (170 / 100),
          h_balance = - fl (370 / 100), acc_loss = fl (370 / 100)\<rparr>,
       \<lparr>step = 4, contract = ''U4'', stake = fl (315 / 100),
          h_balance = - fl (685 / 100), acc_loss = fl (685 / 100)\<rparr>,
       \<lparr>step = 5, contract = ''U4'', stake = fl (582 / 100),
          h_balance = - fl (1267 / 100), acc_loss = fl (1267 / 100)\<rparr>,
       \<lparr>step = 6, contract = ''U4'', stake = fl (1077 / 100),
          h_balance = - fl (23439999999999998 / 1000000000000000),
          acc_loss = fl (23439999999999998 / 1000000000000000)\<rparr>,
       \<lparr>step = 7, contract = ''U4'', stake = fl (1992 / 100),
          h_balance = - fl (4336 / 100), acc_loss = fl (4336 / 100)\<rparr>,
       \<lparr>step = 8, contract = ''U4'', stake = fl (3686 / 100),
          h_balance = - fl (8022 / 100), acc_loss = fl (8022 / 100)\<rparr>],
    final = \<lparr>balance = - fl (8022 / 100), loss_streak = 8, accumulated_loss = fl (8022 / 100)\<rparr>,
    ending = StoppedOut 8 (fl (8022 / 100))\<rparr>"
  unfolding simulate_apollo_def range_1_20
  by (simp add: run_eval cong: let_weak_cong)


lemma long_run:
  "(let S = simulate_apollo 1000000 ''conservador''
    in length (history S) = 19 \<and> ending S = MaxStepsReached \<and>
       balance (final S) = - fl (6969289 / 100))"
  unfolding simulate_apollo_def range_1_20
  by (simp add: run_eval cong: let_weak_cong)

section \<open>The end of a session\<close>

lemma bet_entry:
  "bet pct i v = (v', e) \<Longrightarrow> step e = i \<and> h_balance e = balance v'"
  by (auto simp: bet_def Let_def split: prod.splits)

lemma loop_stop:
  "\<forall>x\<in>set hist. \<bar>h_balance x\<bar> < sl \<Longrightarrow>
   k < length (history (loop sl pct ns v hist)) \<Longrightarrow>
   sl \<le> \<bar>h_balance (history (loop sl pct ns v hist) ! k)\<bar> \<Longrightarrow>
   length (history (loop sl pct ns v hist)) = Suc k \<and>
   ending (loop sl pct ns v hist) =
     StoppedOut (step (history (loop sl pct ns v hist) ! k))
       \<bar>h_balance (history (loop sl pct ns v hist) ! k)\<bar> \<and>
   balance (final (loop sl pct ns v hist)) = h_balance (history (loop sl pct ns v hist) ! k)"
proof (induction ns arbitrary: v hist)
  case Nil
  then have "k < length hist" "sl \<le> \<bar>h_balance (hist ! k)\<bar>"
    by simp_all
  with Nil.prems(1) show ?case
    by (metis nth_mem not_le)
next
  case (Cons i rest)
  obtain v' e where b: "bet pct i v = (v', e)"
    by (cases "bet pct i v")
  note be = bet_entry [OF b]
  show ?case
  proof (cases "sl \<le> \<bar>balance v'\<bar>")
    case True
    then have h: "loop sl pct (i # rest) v hist =
        \<lparr>history = hist @ [e], final = v', ending = StoppedOut i \<bar>balance v'\<bar>\<rparr>"
      by (simp add: b)
    have "\<not> k < length hist"
    proof
      assume l: "k < length hist"
      then have "sl \<le> \<bar>h_balance (hist ! k)\<bar>"
        using Cons.prems(3) unfolding h by (simp add: nth_append)
      with Cons.prems(1) l show False
        by (metis nth_mem not_le)
    qed
    moreover have "k < Suc (length hist)"
      using Cons.prems(2) unfolding h by simp
    ultimately have "k = length hist" by simp
    then show ?thesis
      unfolding h by (simp add: be)
  next
    case False
    then have h: "loop sl pct (i # rest) v hist = loop sl pct rest v' (hist @ [e])"
      by (simp add: b)
    have p: "\<forall>x\<in>set (hist @ [e]). \<bar>h_balance x\<bar> < sl"
      using Cons.prems(1) False by (simp add: be)
    show ?thesis
      using Cons.IH [OF p] Cons.prems(2,3) by (simp only: h)
  qed
qed

section \<open>The session\<close>

text \<open>
  C2. Every bet is lost, and after every bet the accumulated loss is the negated balance:
  in the zeroed variables the session starts from, in every entry of the history and in
  the variables the session ends with. The two floats are equal, not only close, because
  rounding is symmetric.
\<close>

theorem loss_mirrors_balance:
  "accumulated_loss init_vars = - balance init_vars \<and>
   (\<forall>e\<in>set (history (simulate_apollo sl mode)). acc_loss e = - h_balance e) \<and>
   accumulated_loss (final (simulate_apollo sl mode)) = - balance (final (simulate_apollo sl mode))"
  using loop_mirror [of init_vars "[]" sl "profit_pct mode" "[1..<20]"]
  by (simp add: simulate_apollo_def init_vars_def)

theorem loss_mirrors_balance_witness:
  "history (simulate_apollo 50 ''conservador'') \<noteq> [] \<and>
   acc_loss (last (history (simulate_apollo 50 ''conservador''))) = fl (8022 / 100) \<and>
   h_balance (last (history (simulate_apollo 50 ''conservador''))) = - fl (8022 / 100) \<and>
   acc_loss (history (simulate_apollo 50 ''conservador'') ! 5) =
     - h_balance (history (simulate_apollo 50 ''conservador'') ! 5)"
  using loss_mirrors_balance [of 50 "''conservador''"]
  by (simp add: default_run)

text \<open>
  C5. The stop loss is tested after every bet, before the loop goes on: a bet that leaves
  \<^verbatim>\<open>abs(balance) >= stop_loss\<close> is the last one, the session ends by the \<^verbatim>\<open>break\<close> with the
  number of that bet, and the total invested that it reports is \<^verbatim>\<open>abs(balance)\<close>.
\<close>

theorem stop_loss_ends_session:
  "k < length (history (simulate_apollo sl mode)) \<Longrightarrow>
   sl \<le> \<bar>h_balance (history (simulate_apollo sl mode) ! k)\<bar> \<Longrightarrow>
   length (history (simulate_apollo sl mode)) = Suc k \<and>
   ending (simulate_apollo sl mode) =
     StoppedOut (Suc k) \<bar>balance (final (simulate_apollo sl mode))\<bar> \<and>
   balance (final (simulate_apollo sl mode)) = h_balance (history (simulate_apollo sl mode) ! k)"
  using loop_stop [of "[]" sl k "profit_pct mode" "[1..<20]" init_vars]
    simulate_apollo_step [of k sl mode]
  by (simp add: simulate_apollo_def)

theorem stop_loss_ends_session_witness:
  "7 < length (history (simulate_apollo 50 ''conservador'')) \<and>
   50 \<le> \<bar>h_balance (history (simulate_apollo 50 ''conservador'') ! 7)\<bar> \<and>
   length (history (simulate_apollo 50 ''conservador'')) = 8 \<and>
   ending (simulate_apollo 50 ''conservador'') = StoppedOut 8 (fl (8022 / 100)) \<and>
   balance (final (simulate_apollo 50 ''conservador'')) = - fl (8022 / 100)"
  using stop_loss_ends_session [of 7 50 "''conservador''"]
  by (simp add: default_run float_eval cong: let_weak_cong)

text \<open>
  C3. The loop runs over \<^verbatim>\<open>range(1, 20)\<close>: a session has at most 19 bets, not the 20 of the
  comment on line 32, and a session that the stop loss does not end is over after the
  19th bet, as the conservative run with a stop loss of 1000000 is, at a balance of
  -69692.89.
\<close>

theorem nineteen_bets_at_most:
  "length (history (simulate_apollo sl mode)) \<le> 19 \<and>
   length (history (simulate_apollo 1000000 ''conservador'')) = 19 \<and>
   ending (simulate_apollo 1000000 ''conservador'') = MaxStepsReached \<and>
   balance (final (simulate_apollo 1000000 ''conservador'')) = - fl (6969289 / 100)"
  using loop_length [of sl "profit_pct mode" "[1..<20]" init_vars "[]"] long_run
  by (simp add: simulate_apollo_def Let_def)

text \<open>
  C6. The first three bets of the conservative run with a stop loss of 50: 1.00 and 1.00
  on \<^verbatim>\<open>U8\<close>, then, with an accumulated loss of 2.00, a target of 2.04 and the stake
  \<^verbatim>\<open>round(2.04 / 1.20, 2)\<close>, which is 1.70, on \<^verbatim>\<open>U4\<close>; the balance is then -3.70.
\<close>

theorem conservative_scenario:
  "base_stake = 1 \<and>
   take 3 (history (simulate_apollo 50 ''conservador'')) =
     [\<lparr>step = 1, contract = ''U8'', stake = 1, h_balance = - 1, acc_loss = 1\<rparr>,
      \<lparr>step = 2, contract = ''U8'', stake = 1, h_balance = - 2, acc_loss = 2\<rparr>,
      \<lparr>step = 3, contract = ''U4'', stake = fl (170 / 100),
         h_balance = - fl (370 / 100), acc_loss = fl (370 / 100)\<rparr>] \<and>
   py_mul 2 (py_add 1 (profit_pct ''conservador'')) = fl (204 / 100) \<and>
   py_round2 (py_truediv (fl (204 / 100)) payout_u4) = fl (170 / 100)"
  by (simp add: default_run run_eval cong: let_weak_cong)


section \<open>Recovery under consecutive losses\<close>

lemma recovering_nth:
  "recovering pct es \<Longrightarrow> Suc k < length es \<Longrightarrow>
   contract (es ! k) = ''U4'' \<and> contract (es ! Suc k) = ''U4'' \<and>
   stake (es ! Suc k) =
     py_round2 (py_truediv (py_mul (acc_loss (es ! k)) (py_add 1 pct)) payout_u4) \<and>
   stake (es ! k) < stake (es ! Suc k)"
proof (induction pct es arbitrary: k rule: recovering.induct)
  case (1 pct e1 e2 es)
  show ?case
  proof (cases k)
    case 0
    with "1.prems"(1) show ?thesis by simp
  next
    case (Suc j)
    with "1.prems" "1.IH" [of j] show ?thesis by simp
  qed
qed simp_all

lemma recovering_conservador:
  "recovering (fl (2 / 100)) (drop 2 (bets (fl (2 / 100)) [1..<20] init_vars))"
  unfolding range_1_20
  by (simp add: run_eval cong: let_weak_cong)

lemma recovering_other:
  "recovering (fl (15 / 100)) (drop 2 (bets (fl (15 / 100)) [1..<20] init_vars))"
  unfolding range_1_20
  by (simp add: run_eval cong: let_weak_cong)

lemma recovering_run:
  "recovering (profit_pct mode) (drop 2 (bets (profit_pct mode) [1..<20] init_vars))"
  using recovering_conservador recovering_other by (simp add: profit_pct_def)

text \<open>
  C7. From the third bet on, every bet is a recovery bet whose stake is computed from the
  accumulated loss that the bet before it left, not from the one at which the recovery
  began, and every recovery stake is larger than the one before it.
\<close>

theorem recovery_stake_grows:
  assumes "2 \<le> k" and "Suc k < length (history (simulate_apollo sl mode))"
  shows "contract (history (simulate_apollo sl mode) ! k) = ''U4'' \<and>
    contract (history (simulate_apollo sl mode) ! Suc k) = ''U4'' \<and>
    stake (history (simulate_apollo sl mode) ! Suc k) =
      py_round2 (py_truediv
        (py_mul (acc_loss (history (simulate_apollo sl mode) ! k)) (py_add 1 (profit_pct mode)))
        payout_u4) \<and>
    stake (history (simulate_apollo sl mode) ! k) < stake (history (simulate_apollo sl mode) ! Suc k)"
proof -
  let ?B = "bets (profit_pct mode) [1..<20] init_vars"
  obtain n where h: "history (simulate_apollo sl mode) = take n ?B"
    using loop_history_bets [of sl "profit_pct mode" "[1..<20]" init_vars "[]"]
    by (auto simp: simulate_apollo_def)
  from assms(2) h have k: "Suc k < n" "Suc k < length ?B" by simp_all
  obtain j where j: "k = j + 2"
    using assms(1) by (metis add.commute le_Suc_ex)
  have a: "history (simulate_apollo sl mode) ! k = drop 2 ?B ! j"
    using k by (simp add: h j add.commute)
  have b: "history (simulate_apollo sl mode) ! Suc k = drop 2 ?B ! Suc j"
    using k by (simp add: h j add.commute)
  have "Suc j < length (drop 2 ?B)"
    using k(2) by (simp add: j)
  from recovering_nth [OF recovering_run this] show ?thesis
    unfolding a b .
qed

theorem recovery_stake_grows_witness:
  "(2::nat) \<le> 2 \<and> Suc 2 < length (history (simulate_apollo 50 ''conservador'')) \<and>
   stake (history (simulate_apollo 50 ''conservador'') ! 2) = fl (170 / 100) \<and>
   stake (history (simulate_apollo 50 ''conservador'') ! Suc 2) = fl (315 / 100) \<and>
   stake (history (simulate_apollo 50 ''conservador'') ! 2)
     < stake (history (simulate_apollo 50 ''conservador'') ! Suc 2)"
  using recovery_stake_grows [of 2 50 "''conservador''"]
  by (simp add: default_run)

section \<open>Outcomes and configuration\<close>

lemma first_bet:
  "bet pct 1 init_vars =
     (\<lparr>balance = - 1, loss_streak = 1, accumulated_loss = 1\<rparr>,
      \<lparr>step = 1, contract = ''U8'', stake = 1, h_balance = - 1, acc_loss = 1\<rparr>)"
  by (simp add: run_eval cong: let_weak_cong)

text \<open>
  C8, as the code has it. The loop body has one transition, the lost bet: the balance
  goes down by the stake, the accumulated loss goes up by it and the loss streak grows by
  one. No outcome is read, and nothing resets the loss streak or the accumulated loss.
\<close>

theorem every_bet_is_lost:
  "balance (fst (bet pct i v)) = py_sub (balance v) (stake (snd (bet pct i v))) \<and>
   accumulated_loss (fst (bet pct i v)) = py_add (accumulated_loss v) (stake (snd (bet pct i v))) \<and>
   loss_streak (fst (bet pct i v)) = loss_streak v + 1"
  by (simp add: bet_def simulate_loss_def Let_def split: prod.splits)

text \<open>
  The first bet of a session, 1.0 on \<^verbatim>\<open>U8\<close>: the loop body leaves a balance of -1, an
  accumulated loss of 1 and a loss streak of 1, where the transition of the specification
  for a won bet would leave 0.19, 0 and 0.
\<close>

theorem win_transition_counterexample:
  "fst (bet (profit_pct ''conservador'') 1 init_vars) =
     \<lparr>balance = - 1, loss_streak = 1, accumulated_loss = 1\<rparr> \<and>
   win_transition_spec ''U8'' base_stake init_vars =
     \<lparr>balance = fl (19 / 100), loss_streak = 0, accumulated_loss = 0\<rparr> \<and>
   fst (bet (profit_pct ''conservador'') 1 init_vars) \<noteq> win_transition_spec ''U8'' base_stake init_vars"
  by (simp add: first_bet win_transition_spec_def payout_rate_def run_eval cong: let_weak_cong)

text \<open>
  C9, as the code has it. Nothing is validated: the base stake and the payouts are
  constants, and every stop loss and every mode is accepted. The first bet is always
  placed, and with a stop loss of zero or less it is the only one: the session ends by
  the stop loss right after it.
\<close>

theorem no_configuration_is_rejected:
  "history (simulate_apollo sl mode) \<noteq> [] \<and>
   hd (history (simulate_apollo sl mode)) =
     \<lparr>step = 1, contract = ''U8'', stake = 1, h_balance = - 1, acc_loss = 1\<rparr> \<and>
   (sl \<le> 0 \<longrightarrow>
      simulate_apollo sl mode =
        \<lparr>history = [\<lparr>step = 1, contract = ''U8'', stake = 1, h_balance = - 1, acc_loss = 1\<rparr>],
         final = \<lparr>balance = - 1, loss_streak = 1, accumulated_loss = 1\<rparr>,
         ending = StoppedOut 1 1\<rparr>)"
proof -
  let ?e = "\<lparr>step = 1, contract = ''U8'', stake = 1, h_balance = - 1, acc_loss = 1\<rparr>"
  let ?v = "\<lparr>balance = - 1, loss_streak = 1, accumulated_loss = 1\<rparr>"
  have r: "[1..<20] = 1 # [2..<20]"
    by (simp add: upt_conv_Cons)
  have s: "simulate_apollo sl mode =
      (if sl \<le> 1 then \<lparr>history = [?e], final = ?v, ending = StoppedOut 1 1\<rparr>
       else loop sl (profit_pct mode) [2..<20] ?v [?e])"
    unfolding simulate_apollo_def r loop.simps first_bet by simp
  obtain n where "history (loop sl (profit_pct mode) [2..<20] ?v [?e])
      = [?e] @ take n (bets (profit_pct mode) [2..<20] ?v)"
    using loop_history_bets by blast
  then show ?thesis
    by (simp add: s)
qed

theorem no_configuration_is_rejected_witness:
  "(- 5 :: rat) \<le> 0 \<and>
   simulate_apollo (- 5) ''desconhecido'' =
     \<lparr>history = [\<lparr>step = 1, contract = ''U8'', stake = 1, h_balance = - 1, acc_loss = 1\<rparr>],
      final = \<lparr>balance = - 1, loss_streak = 1, accumulated_loss = 1\<rparr>,
      ending = StoppedOut 1 1\<rparr>"
  using no_configuration_is_rejected [of "- 5" "''desconhecido''"]
  by simp

text \<open>
  A stop loss of zero and a mode that does not exist: the session is not refused, it
  places the first bet and ends by the stop loss.
\<close>

theorem invalid_configuration_counterexample:
  "history (simulate_apollo 0 ''desconhecido'') =
     [\<lparr>step = 1, contract = ''U8'', stake = 1, h_balance = - 1, acc_loss = 1\<rparr>] \<and>
   ending (simulate_apollo 0 ''desconhecido'') = StoppedOut 1 1"
  unfolding simulate_apollo_def range_1_20
  by (simp add: run_eval cong: let_weak_cong)

text \<open>
  The bets of the mode that is not \<^verbatim>\<open>conservador\<close>, if the stop loss ends none of them,
  and the session of that mode with the stop loss of 50: seven bets.
\<close>

lemma other_mode_bets:
  "bets (fl (15 / 100)) [1..<20] init_vars =
     [\<lparr>step = 1, contract = ''U8'', stake = 1,
          h_balance = - 1, acc_loss = 1\<rparr>,
       \<lparr>step = 2, contract = ''U8'', stake = 1,
          h_balance = - 2, acc_loss = 2\<rparr>,
       \<lparr>step = 3, contract = ''U4'', stake = fl (192 / 100),
          h_balance = - fl (392 / 100), acc_loss = fl (392 / 100)\<rparr>,
       \<lparr>step = 4, contract = ''U4'', stake = fl (376 / 100),
          h_balance = - fl (768 / 100), acc_loss = fl (768 / 100)\<rparr>,
       \<lparr>step = 5, contract = ''U4'', stake = fl (736 / 100),
          h_balance = - fl (1504 / 100), acc_loss = fl (1504 / 100)\<rparr>,
       \<lparr>step = 6, contract = ''U4'', stake = fl (1441 / 100),
          h_balance = - fl (2945 / 100), acc_loss = fl (2945 / 100)\<rparr>,
       \<lparr>step = 7, contract = ''U4'', stake = fl (2822 / 100),
          h_balance = - fl (5767 / 100), acc_loss = fl (5767 / 100)\<rparr>,
       \<lparr>step = 8, contract = ''U4'', stake = fl (5527 / 100),
          h_balance = - fl (11294 / 100), acc_loss = fl (11294 / 100)\<rparr>,
       \<lparr>step = 9, contract = ''U4'', stake = fl (10823 / 100),
          h_balance = - fl (22117000000000002 / 100000000000000), acc_loss = fl (22117000000000002 / 100000000000000)\<rparr>,
       \<lparr>step = 10, contract = ''U4'', stake = fl (21195 / 100),
          h_balance = - fl (43312 / 100), acc_loss = fl (43312 / 100)\<rparr>,
       \<lparr>step = 11, contract = ''U4'', stake = fl (41507 / 100),
          h_balance = - fl (84819 / 100), acc_loss = fl (84819 / 100)\<rparr>,
       \<lparr>step = 12, contract = ''U4'', stake = fl (81285 / 100),
          h_balance = - fl (166104 / 100), acc_loss = fl (166104 / 100)\<rparr>,
       \<lparr>step = 13, contract = ''U4'', stake = fl (159183 / 100),
          h_balance = - fl (325287 / 100), acc_loss = fl (325287 / 100)\<rparr>,
       \<lparr>step = 14, contract = ''U4'', stake = fl (311733 / 100),
          h_balance = - fl (637020 / 100), acc_loss = fl (637020 / 100)\<rparr>,
       \<lparr>step = 15, contract = ''U4'', stake = fl (610477 / 100),
          h_balance = - fl (12474970000000001 / 1000000000000), acc_loss = fl (12474970000000001 / 1000000000000)\<rparr>,
       \<lparr>step = 16, contract = ''U4'', stake = fl (1195518 / 100),
          h_balance = - fl (2443015 / 100), acc_loss = fl (2443015 / 100)\<rparr>,
       \<lparr>step = 17, contract = ''U4'', stake = fl (2341223 / 100),
          h_balance = - fl (47842380000000005 / 1000000000000), acc_loss = fl (47842380000000005 / 1000000000000)\<rparr>,
       \<lparr>step = 18, contract = ''U4'', stake = fl (4584895 / 100),
          h_balance = - fl (9369133 / 100), acc_loss = fl (9369133 / 100)\<rparr>,
       \<lparr>step = 19, contract = ''U4'', stake = fl (8978752 / 100),
          h_balance = - fl (18347885 / 100), acc_loss = fl (18347885 / 100)\<rparr>]"
  unfolding range_1_20
  by (simp add: run_eval cong: let_weak_cong)

lemma other_mode_run:
  "simulate_apollo 50 ''Conservador'' =
   \<lparr>history =
     [\<lparr>step = 1, contract = ''U8'', stake = 1,
          h_balance = - 1, acc_loss = 1\<rparr>,
       \<lparr>step = 2, contract = ''U8'', stake = 1,
          h_balance = - 2, acc_loss = 2\<rparr>,
       \<lparr>step = 3, contract = ''U4'', stake = fl (192 / 100),
          h_balance = - fl (392 / 100), acc_loss = fl (392 / 100)\<rparr>,
       \<lparr>step = 4, contract = ''U4'', stake = fl (376 / 100),
          h_balance = - fl (768 / 100), acc_loss = fl (768 / 100)\<rparr>,
       \<lparr>step = 5, contract = ''U4'', stake = fl (736 / 100),
          h_balance = - fl (1504 / 100), acc_loss = fl (1504 / 100)\<rparr>,
       \<lparr>step = 6, contract = ''U4'', stake = fl (1441 / 100),
          h_balance = - fl (2945 / 100), acc_loss = fl (2945 / 100)\<rparr>,
       \<lparr>step = 7, contract = ''U4'', stake = fl (2822 / 100),
          h_balance = - fl (5767 / 100), acc_loss = fl (5767 / 100)\<rparr>],
    final = \<lparr>balance = - fl (5767 / 100), loss_streak = 7, accumulated_loss = fl (5767 / 100)\<rparr>,
    ending = StoppedOut 7 (fl (5767 / 100))\<rparr>"
  unfolding simulate_apollo_def range_1_20
  by (simp add: run_eval cong: let_weak_cong)

lemma loop_max:
  "ending (loop sl pct ns v hist) = MaxStepsReached \<Longrightarrow>
   length (history (loop sl pct ns v hist)) = length hist + length ns"
proof (induction ns arbitrary: v hist)
  case Nil
  show ?case by simp
next
  case (Cons i rest)
  obtain v' e where b: "bet pct i v = (v', e)"
    by (cases "bet pct i v")
  show ?case
  proof (cases "sl \<le> \<bar>balance v'\<bar>")
    case True
    with Cons.prems show ?thesis by (simp add: b)
  next
    case False
    then have h: "loop sl pct (i # rest) v hist = loop sl pct rest v' (hist @ [e])"
      by (simp add: b)
    from Cons.prems have "ending (loop sl pct rest v' (hist @ [e])) = MaxStepsReached"
      unfolding h .
    from Cons.IH [OF this] show ?thesis
      unfolding h by simp
  qed
qed

lemma loop_stopped:
  "ending (loop sl pct ns v hist) = StoppedOut i b \<Longrightarrow>
   history (loop sl pct ns v hist) \<noteq> [] \<and>
   sl \<le> \<bar>h_balance (last (history (loop sl pct ns v hist)))\<bar>"
proof (induction ns arbitrary: v hist)
  case Nil
  then show ?case by simp
next
  case (Cons j rest)
  obtain v' e where b: "bet pct j v = (v', e)"
    by (cases "bet pct j v")
  note be = bet_entry [OF b]
  show ?case
  proof (cases "sl \<le> \<bar>balance v'\<bar>")
    case True
    then have h: "loop sl pct (j # rest) v hist =
        \<lparr>history = hist @ [e], final = v', ending = StoppedOut j \<bar>balance v'\<bar>\<rparr>"
      by (simp add: b)
    from True show ?thesis
      unfolding h by (simp add: be)
  next
    case False
    then have h: "loop sl pct (j # rest) v hist = loop sl pct rest v' (hist @ [e])"
      by (simp add: b)
    from Cons.prems have "ending (loop sl pct rest v' (hist @ [e])) = StoppedOut i b"
      unfolding h .
    from Cons.IH [OF this] show ?thesis
      unfolding h .
  qed
qed

text \<open>
  C10. The mode is compared with the string \<^verbatim>\<open>conservador\<close> and nothing else: every other
  string, a misspelling included, gives the profit margin 0.15, and the session runs with
  it. Its bets are the first bets of the list below, 1.00 and 1.00 on \<^verbatim>\<open>U8\<close> and then
  1.92, 3.76, 7.36 and so on on \<^verbatim>\<open>U4\<close>, where the conservative session bets 1.70, 3.15,
  5.82: at least one of them, and all that come before the first one that crosses the
  stop loss, or all 19 if none does.
\<close>

theorem other_mode_runs_with_15_percent:
  assumes "mode \<noteq> ''conservador''"
  shows "profit_pct mode = fl (15 / 100) \<and>
    history (simulate_apollo sl mode) \<noteq> [] \<and>
    history (simulate_apollo sl mode) =
      take (length (history (simulate_apollo sl mode)))
     [\<lparr>step = 1, contract = ''U8'', stake = 1,
          h_balance = - 1, acc_loss = 1\<rparr>,
       \<lparr>step = 2, contract = ''U8'', stake = 1,
          h_balance = - 2, acc_loss = 2\<rparr>,
       \<lparr>step = 3, contract = ''U4'', stake = fl (192 / 100),
          h_balance = - fl (392 / 100), acc_loss = fl (392 / 100)\<rparr>,
       \<lparr>step = 4, contract = ''U4'', stake = fl (376 / 100),
          h_balance = - fl (768 / 100), acc_loss = fl (768 / 100)\<rparr>,
       \<lparr>step = 5, contract = ''U4'', stake = fl (736 / 100),
          h_balance = - fl (1504 / 100), acc_loss = fl (1504 / 100)\<rparr>,
       \<lparr>step = 6, contract = ''U4'', stake = fl (1441 / 100),
          h_balance = - fl (2945 / 100), acc_loss = fl (2945 / 100)\<rparr>,
       \<lparr>step = 7, contract = ''U4'', stake = fl (2822 / 100),
          h_balance = - fl (5767 / 100), acc_loss = fl (5767 / 100)\<rparr>,
       \<lparr>step = 8, contract = ''U4'', stake = fl (5527 / 100),
          h_balance = - fl (11294 / 100), acc_loss = fl (11294 / 100)\<rparr>,
       \<lparr>step = 9, contract = ''U4'', stake = fl (10823 / 100),
          h_balance = - fl (22117000000000002 / 100000000000000), acc_loss = fl (22117000000000002 / 100000000000000)\<rparr>,
       \<lparr>step = 10, contract = ''U4'', stake = fl (21195 / 100),
          h_balance = - fl (43312 / 100), acc_loss = fl (43312 / 100)\<rparr>,
       \<lparr>step = 11, contract = ''U4'', stake = fl (41507 / 100),
          h_balance = - fl (84819 / 100), acc_loss = fl (84819 / 100)\<rparr>,
       \<lparr>step = 12, contract = ''U4'', stake = fl (81285 / 100),
          h_balance = - fl (166104 / 100), acc_loss = fl (166104 / 100)\<rparr>,
       \<lparr>step = 13, contract = ''U4'', stake = fl (159183 / 100),
          h_balance = - fl (325287 / 100), acc_loss = fl (325287 / 100)\<rparr>,
       \<lparr>step = 14, contract = ''U4'', stake = fl (311733 / 100),
          h_balance = - fl (637020 / 100), acc_loss = fl (637020 / 100)\<rparr>,
       \<lparr>step = 15, contract = ''U4'', stake = fl (610477 / 100),
          h_balance = - fl (12474970000000001 / 1000000000000), acc_loss = fl (12474970000000001 / 1000000000000)\<rparr>,
       \<lparr>step = 16, contract = ''U4'', stake = fl (1195518 / 100),
          h_balance = - fl (2443015 / 100), acc_loss = fl (2443015 / 100)\<rparr>,
       \<lparr>step = 17, contract = ''U4'', stake = fl (2341223 / 100),
          h_balance = - fl (47842380000000005 / 1000000000000), acc_loss = fl (47842380000000005 / 1000000000000)\<rparr>,
       \<lparr>step = 18, contract = ''U4'', stake = fl (4584895 / 100),
          h_balance = - fl (9369133 / 100), acc_loss = fl (9369133 / 100)\<rparr>,
       \<lparr>step = 19, contract = ''U4'', stake = fl (8978752 / 100),
          h_balance = - fl (18347885 / 100), acc_loss = fl (18347885 / 100)\<rparr>] \<and>
    (length (history (simulate_apollo sl mode)) = 19 \<or>
     sl \<le> \<bar>h_balance (last (history (simulate_apollo sl mode)))\<bar>) \<and>
    (\<forall>k. Suc k < length (history (simulate_apollo sl mode)) \<longrightarrow>
       \<bar>h_balance (history (simulate_apollo sl mode) ! k)\<bar> < sl)"
proof -
  let ?S = "simulate_apollo sl mode"
  let ?B = "bets (fl (15 / 100)) [1..<20] init_vars"
  have pct: "profit_pct mode = fl (15 / 100)"
    using assms by (simp add: profit_pct_def)
  have S: "?S = loop sl (fl (15 / 100)) [1..<20] init_vars []"
    by (simp add: simulate_apollo_def pct)
  obtain n where "history ?S = take n ?B"
    using loop_history_bets [of sl "fl (15 / 100)" "[1..<20]" init_vars "[]"]
    by (auto simp: S)
  then have "history ?S = take (length (history ?S)) ?B"
    by (metis append_eq_conv_conj append_take_drop_id)
  then have trace: "history ?S =
      take (length (history ?S))
     [\<lparr>step = 1, contract = ''U8'', stake = 1,
          h_balance = - 1, acc_loss = 1\<rparr>,
       \<lparr>step = 2, contract = ''U8'', stake = 1,
          h_balance = - 2, acc_loss = 2\<rparr>,
       \<lparr>step = 3, contract = ''U4'', stake = fl (192 / 100),
          h_balance = - fl (392 / 100), acc_loss = fl (392 / 100)\<rparr>,
       \<lparr>step = 4, contract = ''U4'', stake = fl (376 / 100),
          h_balance = - fl (768 / 100), acc_loss = fl (768 / 100)\<rparr>,
       \<lparr>step = 5, contract = ''U4'', stake = fl (736 / 100),
          h_balance = - fl (1504 / 100), acc_loss = fl (1504 / 100)\<rparr>,
       \<lparr>step = 6, contract = ''U4'', stake = fl (1441 / 100),
          h_balance = - fl (2945 / 100), acc_loss = fl (2945 / 100)\<rparr>,
       \<lparr>step = 7, contract = ''U4'', stake = fl (2822 / 100),
          h_balance = - fl (5767 / 100), acc_loss = fl (5767 / 100)\<rparr>,
       \<lparr>step = 8, contract = ''U4'', stake = fl (5527 / 100),
          h_balance = - fl (11294 / 100), acc_loss = fl (11294 / 100)\<rparr>,
       \<lparr>step = 9, contract = ''U4'', stake = fl (10823 / 100),
          h_balance = - fl (22117000000000002 / 100000000000000), acc_loss = fl (22117000000000002 / 100000000000000)\<rparr>,
       \<lparr>step = 10, contract = ''U4'', stake = fl (21195 / 100),
          h_balance = - fl (43312 / 100), acc_loss = fl (43312 / 100)\<rparr>,
       \<lparr>step = 11, contract = ''U4'', stake = fl (41507 / 100),
          h_balance = - fl (84819 / 100), acc_loss = fl (84819 / 100)\<rparr>,
       \<lparr>step = 12, contract = ''U4'', stake = fl (81285 / 100),
          h_balance = - fl (166104 / 100), acc_loss = fl (166104 / 100)\<rparr>,
       \<lparr>step = 13, contract = ''U4'', stake = fl (159183 / 100),
          h_balance = - fl (325287 / 100), acc_loss = fl (325287 / 100)\<rparr>,
       \<lparr>step = 14, contract = ''U4'', stake = fl (311733 / 100),
          h_balance = - fl (637020 / 100), acc_loss = fl (637020 / 100)\<rparr>,
       \<lparr>step = 15, contract = ''U4'', stake = fl (610477 / 100),
          h_balance = - fl (12474970000000001 / 1000000000000), acc_loss = fl (12474970000000001 / 1000000000000)\<rparr>,
       \<lparr>step = 16, contract = ''U4'', stake = fl (1195518 / 100),
          h_balance = - fl (2443015 / 100), acc_loss = fl (2443015 / 100)\<rparr>,
       \<lparr>step = 17, contract = ''U4'', stake = fl (2341223 / 100),
          h_balance = - fl (47842380000000005 / 1000000000000), acc_loss = fl (47842380000000005 / 1000000000000)\<rparr>,
       \<lparr>step = 18, contract = ''U4'', stake = fl (4584895 / 100),
          h_balance = - fl (9369133 / 100), acc_loss = fl (9369133 / 100)\<rparr>,
       \<lparr>step = 19, contract = ''U4'', stake = fl (8978752 / 100),
          h_balance = - fl (18347885 / 100), acc_loss = fl (18347885 / 100)\<rparr>]"
    by (simp only: other_mode_bets)
  have ne: "history ?S \<noteq> [] \<and>
      (length (history ?S) = 19 \<or> sl \<le> \<bar>h_balance (last (history ?S))\<bar>)"
  proof (cases "ending ?S")
    case (StoppedOut i b)
    then show ?thesis
      using loop_stopped [of sl "fl (15 / 100)" "[1..<20]" init_vars "[]" i b]
      by (simp add: S)
  next
    case MaxStepsReached
    then have "length (history ?S) = 19"
      using loop_max [of sl "fl (15 / 100)" "[1..<20]" init_vars "[]"]
      by (simp add: S)
    then show ?thesis by auto
  qed
  have below: "\<bar>h_balance (history ?S ! k)\<bar> < sl" if k: "Suc k < length (history ?S)" for k
  proof (rule ccontr)
    assume "\<not> \<bar>h_balance (history ?S ! k)\<bar> < sl"
    then have "sl \<le> \<bar>h_balance (history ?S ! k)\<bar>" by simp
    moreover have "k < length (history ?S)" using k by simp
    ultimately have "length (history ?S) = Suc k"
      using loop_stop [of "[]" sl k "fl (15 / 100)" "[1..<20]" init_vars]
      by (simp add: S)
    with k show False by simp
  qed
  from pct ne trace below show ?thesis
    by blast
qed

text \<open>
  The mode \<^verbatim>\<open>Conservador\<close>, with a capital letter, and the default stop loss: the session
  bets 1.92 where the conservative one bets 1.70, and ends with its seventh bet at a
  balance of -57.67.
\<close>

theorem other_mode_runs_with_15_percent_witness:
  "''Conservador'' \<noteq> ''conservador'' \<and>
   profit_pct ''Conservador'' = fl (15 / 100) \<and>
   length (history (simulate_apollo 50 ''Conservador'')) = 7 \<and>
   stake (history (simulate_apollo 50 ''Conservador'') ! 2) = fl (192 / 100) \<and>
   stake (history (simulate_apollo 50 ''conservador'') ! 2) = fl (170 / 100) \<and>
   \<bar>h_balance (history (simulate_apollo 50 ''Conservador'') ! 5)\<bar> < 50 \<and>
   50 \<le> \<bar>h_balance (last (history (simulate_apollo 50 ''Conservador'')))\<bar> \<and>
   ending (simulate_apollo 50 ''Conservador'') = StoppedOut 7 (fl (5767 / 100))"
  using other_mode_runs_with_15_percent [of "''Conservador''" 50]
  by (simp add: other_mode_run default_run float_eval cong: let_weak_cong)

end
